theory Spec2Isabelle
  imports Complex_Main "HOL-Library.Sublist" "HOL-Library.Option_ord"
begin

section \<open>Data model\<close>

text \<open>
  The attendance controller works on four MongoDB collections (users, QR code sessions,
  class enrolments, attendance records). A collection is a list of documents in insertion
  order; \<open>findOne\<close> is \<^const>\<open>find\<close> on that list. Identifiers (ObjectIds, QR tokens) are
  strings. An optional document field is an \<open>option\<close>: \<open>None\<close> is a field that is absent
  (JavaScript \<open>undefined\<close> or \<open>null\<close>).
\<close>

type_synonym ident = string

text \<open>JSON values of request fields that the controller passes through or tests strictly.\<close>

datatype jsval = JUndefined | JNull | JBool bool | JNum real | JStr string

text \<open>An awaited call either returns a value or throws an error with a message.\<close>

datatype 'a outcome = Returns 'a | Throws string

text \<open>The fields of a user document (userModel.js) that the controller reads.\<close>

record user =
  user_id :: ident
  fullName :: string
  enrollmentNo :: "string option"
  faceImageS3Key :: "string option"

record qrCodeSession =
  qr_id :: ident
  qr_sessionId :: ident
  qr_classId :: ident
  qr_scheduleId :: "ident option"
  isActive :: bool
  sessionExpiresAt :: int

record classEnrollment =
  enr_studentId :: ident
  enr_classId :: ident

text \<open>
  An attendance document. Dates are milliseconds since the epoch; \<open>None\<close> as a timestamp
  is JavaScript's Invalid Date.
\<close>

record attendance =
  studentId :: "ident option"
  classId :: "ident option"
  sessionId :: "ident option"
  scheduleId :: "ident option"
  status :: string
  studentCoordinates :: "(jsval \<times> jsval) option"
  livenessPassed :: jsval
  faceEmbedding :: jsval
  timestamp :: "int option"
  manualEntry :: bool
  markedBy :: "ident option"
  synced :: bool
  att_notes :: "string option"

text \<open>
  Modelled from the spec: the schema of attendanceModel.js, which is not among the
  sources. \<open>new Attendance({...})\<close> fills the fields it is not given with the schema
  defaults; the spec's data model gives \<open>status\<close> the default \<open>present\<close> and has
  \<open>manualEntry\<close> and \<open>synced\<close> false unless the creating operation sets them. Every
  constructor call of the controller passes \<open>timestamp\<close>, so its default is never used.
\<close>

definition new_Attendance :: attendance where
  "new_Attendance =
     \<lparr> studentId = None, classId = None, sessionId = None, scheduleId = None,
       status = ''present'', studentCoordinates = None, livenessPassed = JUndefined,
       faceEmbedding = JUndefined, timestamp = None, manualEntry = False,
       markedBy = None, synced = False, att_notes = None \<rparr>"

text \<open>
  \<open>doc.save()\<close> appends the document to the collection, or throws. What the storage
  layer refuses (schema validation, an index, an unreachable database) is not in the
  sources, so it is the parameter \<open>rej\<close>: \<open>rej store doc = Some m\<close> when saving \<open>doc\<close>
  into \<open>store\<close> throws an error with message \<open>m\<close>.
\<close>

type_synonym rejects = "attendance list \<Rightarrow> attendance \<Rightarrow> string option"

definition save :: "rejects \<Rightarrow> attendance list \<Rightarrow> attendance \<Rightarrow> attendance list outcome" where
  "save rej store doc =
     (case rej store doc of Some m \<Rightarrow> Throws m | None \<Rightarrow> Returns (store @ [doc]))"

text \<open>An HTTP response: status code, the \<open>message\<close> of the JSON body, and its payload.\<close>

datatype 'a response = Response (status_code: nat) (message: string) (payload: "'a option")

text \<open>JavaScript truthiness of an optional string: absent and empty are falsy.\<close>

definition falsy :: "string option \<Rightarrow> bool" where
  "falsy x = (case x of None \<Rightarrow> True | Some s \<Rightarrow> s = [])"

text \<open>\<open>String.prototype.includes\<close>: the needle occurs as a contiguous substring.\<close>

fun str_includes :: "string \<Rightarrow> string \<Rightarrow> bool" where
  "str_includes [] needle = (needle = [])"
| "str_includes (c # cs) needle = (prefix needle (c # cs) \<or> str_includes cs needle)"

section \<open>submitAttendance\<close>

record submitBody =
  b_sessionId :: "string option"
  b_classId :: "string option"
  b_studentCoordinates :: "(jsval \<times> jsval) option"
  b_livenessPassed :: jsval
  b_faceImage :: "string option"

text \<open>
  What a submission reads besides the attendance collection: the user and QR session
  collections, the byte length of the buffer decoded from the submitted image
  (\<open>Buffer.from(faceImage.replace(...), 'base64').length\<close>), the face comparison of
  rekognitionService.js (an external call that returns a boolean or throws), and the two
  readings of the clock (\<open>new Date()\<close> in the session query and in the new document).
\<close>

record world =
  users :: "user list"
  qrSessions :: "qrCodeSession list"
  decodedSize :: "string \<Rightarrow> nat"
  compareFaces :: "string \<Rightarrow> string \<Rightarrow> bool outcome"
  clock_query :: int
  clock_save :: int
  rejects :: rejects

text \<open>The \<open>catch\<close> block of submitAttendance.\<close>

definition submit_catch :: "string \<Rightarrow> attendance response" where
  "submit_catch m =
     (if str_includes m ''Face could not be verified'' then Response 401 m None
      else Response 500 (if m = [] then ''An unexpected server error occurred.'' else m) None)"

definition session_matches :: "world \<Rightarrow> ident \<Rightarrow> ident \<Rightarrow> qrCodeSession \<Rightarrow> bool" where
  "session_matches w sess cls q =
     (qr_sessionId q = sess \<and> qr_classId q = cls \<and> isActive q \<and> clock_query w < sessionExpiresAt q)"

definition has_pair :: "ident \<Rightarrow> ident option \<Rightarrow> attendance \<Rightarrow> bool" where
  "has_pair sid sess r = (studentId r = Some sid \<and> sessionId r = sess)"

definition submit_record :: "world \<Rightarrow> ident \<Rightarrow> ident \<Rightarrow> (jsval \<times> jsval) \<Rightarrow> qrCodeSession \<Rightarrow> attendance" where
  "submit_record w sid cls coords q =
     new_Attendance
       \<lparr> studentId := Some sid, classId := Some cls, sessionId := Some (qr_id q),
         scheduleId := qr_scheduleId q, studentCoordinates := Some coords,
         livenessPassed := JBool True, timestamp := Some (clock_save w),
         manualEntry := False \<rparr>"

text \<open>
  The handler, stage by stage as in the source; \<open>sid\<close> is \<open>req.user.id\<close>. It returns the
  response and the attendance collection afterwards.
\<close>

definition submitAttendance ::
  "world \<Rightarrow> attendance list \<Rightarrow> ident \<Rightarrow> submitBody \<Rightarrow> attendance response \<times> attendance list" where
  "submitAttendance w store sid b =
     (if falsy (b_sessionId b) \<or> falsy (b_classId b) \<or> b_studentCoordinates b = None
         \<or> falsy (b_faceImage b)
      then (Response 400 ''Missing required attendance data.'' None, store)
      else if b_livenessPassed b \<noteq> JBool True
      then (Response 400 ''Liveness check was not passed.'' None, store)
      else
        (case (b_sessionId b, b_classId b, b_studentCoordinates b, b_faceImage b) of
           (Some sess, Some cls, Some coords, Some img) \<Rightarrow>
             (case find (\<lambda>u. user_id u = sid) (users w) of
                None \<Rightarrow>
                  (Response 404 ''Student profile not found or face is not registered.'' None, store)
              | Some student \<Rightarrow>
                  (case faceImageS3Key student of
                     None \<Rightarrow>
                       (Response 404 ''Student profile not found or face is not registered.'' None, store)
                   | Some key \<Rightarrow>
                       if key = []
                       then (Response 404 ''Student profile not found or face is not registered.'' None, store)
                       else if 5 * 1024 * 1024 < decodedSize w img
                       then (Response 400 ''Image too large. Please try again with a smaller image.'' None, store)
                       else
                         (case compareFaces w key img of
                            Throws m \<Rightarrow> (submit_catch m, store)
                          | Returns False \<Rightarrow>
                              (Response 401 ''Face recognition failed. Identity could not be verified.'' None, store)
                          | Returns True \<Rightarrow>
                              (case find (session_matches w sess cls) (qrSessions w) of
                                 None \<Rightarrow>
                                   (Response 400 ''This QR code is invalid or has expired.'' None, store)
                               | Some q \<Rightarrow>
                                   (case find (has_pair sid (Some (qr_id q))) store of
                                      Some existing \<Rightarrow>
                                        (Response 409 ''You have already marked attendance for this session.'' None, store)
                                    | None \<Rightarrow>
                                        (case save (rejects w) store (submit_record w sid cls coords q) of
                                           Throws m \<Rightarrow> (submit_catch m, store)
                                         | Returns store' \<Rightarrow>
                                             (Response 201 ''Attendance marked successfully!''
                                                (Some (submit_record w sid cls coords q)), store')))))))
         | _ \<Rightarrow> (Response 400 ''Missing required attendance data.'' None, store)))"

section \<open>syncAttendance\<close>

record claim =
  c_sessionId :: "ident option"
  c_classId :: "ident option"
  c_scheduleId :: "ident option"
  c_studentCoordinates :: "(jsval \<times> jsval) option"
  c_livenessPassed :: jsval
  c_faceEmbedding :: jsval
  c_timestamp :: "int option"

record syncResult =
  res_sessionId :: "ident option"
  res_status :: string
  res_message :: "string option"

definition sync_record :: "ident \<Rightarrow> claim \<Rightarrow> attendance" where
  "sync_record sid c =
     new_Attendance
       \<lparr> studentId := Some sid, sessionId := c_sessionId c, classId := c_classId c,
         scheduleId := c_scheduleId c, studentCoordinates := c_studentCoordinates c,
         livenessPassed := c_livenessPassed c, faceEmbedding := c_faceEmbedding c,
         timestamp := c_timestamp c, synced := True,
         att_notes := Some '' Synced from offline data'' \<rparr>"

definition skipped :: "claim \<Rightarrow> syncResult" where
  "skipped c = \<lparr> res_sessionId = c_sessionId c, res_status = ''skipped'',
                 res_message = Some ''Already exists.'' \<rparr>"

definition success :: "claim \<Rightarrow> syncResult" where
  "success c = \<lparr> res_sessionId = c_sessionId c, res_status = ''success'', res_message = None \<rparr>"

text \<open>
  The \<open>for\<close> loop over the claims, with the collection and \<open>syncResults\<close> as loop state.
  The query \<open>{studentId, sessionId}\<close> with an absent session id matches the documents that
  carry none (MongoDB's match on null). A \<open>save\<close> that throws leaves the loop: the result
  is \<open>Inl\<close> of the error message, with the collection as it is at that moment.
\<close>

fun sync_loop ::
  "rejects \<Rightarrow> ident \<Rightarrow> claim list \<Rightarrow> attendance list \<Rightarrow> syncResult list
     \<Rightarrow> (string + syncResult list) \<times> attendance list" where
  "sync_loop rej sid [] store results = (Inr results, store)"
| "sync_loop rej sid (c # cs) store results =
     (case find (has_pair sid (c_sessionId c)) store of
        Some existing \<Rightarrow> sync_loop rej sid cs store (results @ [skipped c])
      | None \<Rightarrow>
          (case save rej store (sync_record sid c) of
             Throws m \<Rightarrow> (Inl m, store)
           | Returns store' \<Rightarrow> sync_loop rej sid cs store' (results @ [success c])))"

text \<open>
  The handler; \<open>attendances\<close> is \<open>None\<close> when the payload is not an array.
\<close>

definition syncAttendance ::
  "rejects \<Rightarrow> attendance list \<Rightarrow> ident \<Rightarrow> claim list option
     \<Rightarrow> syncResult list response \<times> attendance list" where
  "syncAttendance rej store sid attendances =
     (case attendances of
        None \<Rightarrow> (Response 400 ''No attendance records to sync.'' None, store)
      | Some cs \<Rightarrow>
          if length cs = 0 then (Response 400 ''No attendance records to sync.'' None, store)
          else
            (case sync_loop rej sid cs store [] of
               (Inr results, store') \<Rightarrow> (Response 200 ''Sync completed.'' (Some results), store')
             | (Inl m, store') \<Rightarrow> (Response 500 m None, store')))"

section \<open>updateAttendance and createManualAttendance\<close>


record manualBody =
  m_studentId :: "ident option"
  m_classId :: "ident option"
  m_scheduleId :: "ident option"
  m_status :: "string option"
  m_timestamp :: "int option"

definition manual_record :: "ident \<Rightarrow> manualBody \<Rightarrow> attendance" where
  "manual_record uid b =
     new_Attendance
       \<lparr> studentId := m_studentId b, classId := m_classId b, scheduleId := m_scheduleId b,
         status := (case m_status b of None \<Rightarrow> status new_Attendance | Some s \<Rightarrow> s),
         timestamp := m_timestamp b, manualEntry := True, markedBy := Some uid \<rparr>"

definition createManualAttendance ::
  "rejects \<Rightarrow> attendance list \<Rightarrow> ident \<Rightarrow> manualBody \<Rightarrow> attendance response \<times> attendance list" where
  "createManualAttendance rej store uid b =
     (case save rej store (manual_record uid b) of
        Throws m \<Rightarrow> (Response 500 m None, store)
      | Returns store' \<Rightarrow> (Response 201 [] (Some (manual_record uid b)), store'))"

section \<open>JavaScript numbers\<close>

text \<open>
  A JavaScript number (and a MongoDB double) is an IEEE 754 binary64 value, here the real
  number it denotes. Division and multiplication round the exact result to the nearest
  binary64 value, ties to the even significand. The exponent range is not modelled: the
  numbers below are quotients of two record counts, times 100, far from overflow and
  from the subnormal range.
\<close>

text \<open>The number of binary digits of a positive integer.\<close>

function bit_length :: "int \<Rightarrow> int" where
  "bit_length n = (if n \<le> 0 then 0 else 1 + bit_length (n div 2))"
  by pat_completeness auto
termination
  by (relation "measure nat") auto

declare bit_length.simps [simp del]

text \<open>For \<open>x > 0\<close>, the exponent \<open>e\<close> with \<open>2^e \<le> x < 2^(e+1)\<close>.\<close>

definition binade :: "real \<Rightarrow> int" where
  "binade x = (if 1 \<le> x then bit_length \<lfloor>x\<rfloor> - 1 else - bit_length (\<lceil>1 / x\<rceil> - 1))"

definition round_ties_even :: "real \<Rightarrow> int" where
  "round_ties_even x =
     (let f = \<lfloor>x\<rfloor>; d = x - of_int f
      in if d < 1 / 2 then f else if 1 / 2 < d then f + 1 else if even f then f else f + 1)"

text \<open>The nearest number with a 53-bit significand.\<close>

definition to_double :: "real \<Rightarrow> real" where
  "to_double x =
     (if x = 0 then 0
      else (let e = binade \<bar>x\<bar> - 52
            in of_int (round_ties_even (x / 2 powi e)) * 2 powi e))"

definition js_div :: "real \<Rightarrow> real \<Rightarrow> real" where
  "js_div a b = to_double (a / b)"

definition js_mul :: "real \<Rightarrow> real \<Rightarrow> real" where
  "js_mul a b = to_double (a * b)"

text \<open>
  \<open>parseFloat(x.toFixed(2))\<close> for \<open>x \<ge> 0\<close>: \<open>toFixed\<close> takes the integer \<open>n\<close> with
  \<open>n / 100\<close> nearest to the exact value of \<open>x\<close>, the larger one of two; the result is the
  decimal number \<open>n / 100\<close> that the JSON response prints.
\<close>

definition toFixed2 :: "real \<Rightarrow> real" where
  "toFixed2 x = of_int \<lfloor>x * 100 + 1 / 2\<rfloor> / 100"

section \<open>Attendance summaries\<close>

record summary =
  totalHeldSessions :: nat
  totalAttendedSessions :: nat
  totalMissedSessions :: int
  percentage :: real



text \<open>Step 4 of both summary handlers and the \<open>summary\<close> object of their response.\<close>

definition calc_percentage :: "nat \<Rightarrow> nat \<Rightarrow> real" where
  "calc_percentage totalHeld totalAttended =
     (if totalHeld = 0 then 100 else js_mul (js_div (real totalAttended) (real totalHeld)) 100)"

definition make_summary :: "nat \<Rightarrow> nat \<Rightarrow> summary" where
  "make_summary totalHeld totalAttended =
     \<lparr> totalHeldSessions = totalHeld, totalAttendedSessions = totalAttended,
       totalMissedSessions = int totalHeld - int totalAttended,
       percentage = toFixed2 (calc_percentage totalHeld totalAttended) \<rparr>"



text \<open>
  A number \<open>p\<close> is \<open>x\<close> rounded to two decimal places: a whole number of hundredths, at
  most half a hundredth from \<open>x\<close>.
\<close>

definition rounded_2dp :: "real \<Rightarrow> real \<Rightarrow> bool" where
  "rounded_2dp x p = (p * 100 = of_int \<lfloor>p * 100\<rfloor> \<and> \<bar>p - x\<bar> \<le> 1 / 200)"

section \<open>getAttendanceByClass\<close>

record classQuery =
  q_startDate :: "int option"
  q_endDate :: "int option"
  q_status :: "string option"

record transformed =
  t_student :: "(ident \<times> string option \<times> string option) option"
  t_classInfo :: "ident option"
  t_attendedAt :: "int option"
  t_status :: string

record stats =
  totalEnrolled :: nat
  present :: nat
  absent :: int

definition class_query_matches :: "ident \<Rightarrow> classQuery \<Rightarrow> attendance \<Rightarrow> bool" where
  "class_query_matches cid q r =
     (classId r = Some cid
      \<and> (case q_startDate q of None \<Rightarrow> True
          | Some d \<Rightarrow> (case timestamp r of None \<Rightarrow> False | Some t \<Rightarrow> d \<le> t))
      \<and> (case q_endDate q of None \<Rightarrow> True
          | Some d \<Rightarrow> (case timestamp r of None \<Rightarrow> False | Some t \<Rightarrow> t \<le> d))
      \<and> (if \<not> falsy (q_status q) \<and> q_status q \<noteq> Some ''all''
          then Some (status r) = q_status q else True))"

text \<open>\<open>.sort({ timestamp: -1 })\<close>; a document without a timestamp sorts last.\<close>

definition sort_newest_first :: "attendance list \<Rightarrow> attendance list" where
  "sort_newest_first rs = rev (sort_key timestamp rs)"

definition transform :: "user list \<Rightarrow> attendance \<Rightarrow> transformed" where
  "transform us r =
     \<lparr> t_student =
         (case studentId r of None \<Rightarrow> None
          | Some s \<Rightarrow>
              (case find (\<lambda>u. user_id u = s) us of None \<Rightarrow> None
               | Some u \<Rightarrow>
                   Some (user_id u, if fullName u = [] then None else Some (fullName u),
                         enrollmentNo u))),
       t_classInfo = classId r, t_attendedAt = timestamp r, t_status = status r \<rparr>"

definition getAttendanceByClass ::
  "user list \<Rightarrow> classEnrollment list \<Rightarrow> attendance list \<Rightarrow> ident \<Rightarrow> classQuery
     \<Rightarrow> transformed list \<times> stats" where
  "getAttendanceByClass us enrollments store cid q =
     (let records = sort_newest_first (filter (class_query_matches cid q) store);
          enrolledStudents = filter (\<lambda>e. enr_classId e = cid) enrollments;
          transformedRecords = map (transform us) records
      in (transformedRecords,
          \<lparr> totalEnrolled = length enrolledStudents,
            present = length (filter (\<lambda>r. t_status r = ''present'') transformedRecords),
            absent = int (length enrolledStudents)
                     - int (length (filter (\<lambda>r. t_status r = ''present'') transformedRecords)) \<rparr>))"

section \<open>The aggregation of getFullAttendanceReport\<close>










section \<open>Reachable states of the attendance collection\<close>



text \<open>
  The claim of a batch that already has a record: a document of the student with the
  claim's session id is in the collection when the call starts.
\<close>

definition pre_existing :: "attendance list \<Rightarrow> ident \<Rightarrow> claim \<Rightarrow> bool" where
  "pre_existing store sid c = (\<exists>r \<in> set store. has_pair sid (c_sessionId c) r)"

text \<open>
  The outcomes and the persisted claims of a batch, from the set \<open>K\<close> of session ids that
  the student's documents carry: a claim whose session id is in \<open>K\<close> is skipped, any other
  one is persisted and its session id joins \<open>K\<close>.
\<close>

definition known_sessions :: "attendance list \<Rightarrow> ident \<Rightarrow> ident option set" where
  "known_sessions store sid = {k. \<exists>r \<in> set store. has_pair sid k r}"

fun batch_outcomes :: "ident option set \<Rightarrow> claim list \<Rightarrow> syncResult list" where
  "batch_outcomes K [] = []"
| "batch_outcomes K (c # cs) =
     (if c_sessionId c \<in> K then skipped c else success c)
       # batch_outcomes (insert (c_sessionId c) K) cs"

fun batch_kept :: "ident option set \<Rightarrow> claim list \<Rightarrow> claim list" where
  "batch_kept K [] = []"
| "batch_kept K (c # cs) =
     (if c_sessionId c \<in> K then batch_kept K cs
      else c # batch_kept (insert (c_sessionId c) K) cs)"

section \<open>Example data\<close>

text \<open>
  A student with a registered face, one live QR session of class \<open>c1\<close>, a storage layer
  that refuses nothing, and a request body.
\<close>

definition ex_student :: user where
  "ex_student = \<lparr> user_id = ''u1'', fullName = ''Asha Rao'', enrollmentNo = Some ''E001'',
                   faceImageS3Key = Some ''faces/u1.jpg'' \<rparr>"

definition ex_session :: qrCodeSession where
  "ex_session = \<lparr> qr_id = ''q77'', qr_sessionId = ''tok-1'', qr_classId = ''c1'',
                   qr_scheduleId = Some ''s1'', isActive = True, sessionExpiresAt = 2000 \<rparr>"

definition no_rejects :: rejects where
  "no_rejects = (\<lambda>store doc. None)"

definition ex_world :: "bool outcome \<Rightarrow> world" where
  "ex_world verdict = \<lparr> users = [ex_student], qrSessions = [ex_session],
       decodedSize = (\<lambda>img. length img), compareFaces = (\<lambda>key img. verdict),
       clock_query = 1000, clock_save = 1001, rejects = no_rejects \<rparr>"

definition ex_body :: "jsval \<Rightarrow> submitBody" where
  "ex_body live = \<lparr> b_sessionId = Some ''tok-1'', b_classId = Some ''c1'',
       b_studentCoordinates = Some (JNum 23, JNum 72), b_livenessPassed = live,
       b_faceImage = Some ''aGVsbG8='' \<rparr>"

text \<open>An offline claim.\<close>

definition ex_claim :: "ident \<Rightarrow> ident option \<Rightarrow> int \<Rightarrow> claim" where
  "ex_claim sess cls t =
     \<lparr> c_sessionId = Some sess, c_classId = cls, c_scheduleId = None,
       c_studentCoordinates = None, c_livenessPassed = JBool True,
       c_faceEmbedding = JUndefined, c_timestamp = Some t \<rparr>"

text \<open>A manual entry by teacher \<open>t1\<close>, and a collection reached by one request of each kind.\<close>

definition ex_manual :: manualBody where
  "ex_manual = \<lparr> m_studentId = Some ''u1'', m_classId = Some ''c1'', m_scheduleId = Some ''s1'',
                  m_status = Some ''late'', m_timestamp = Some 900 \<rparr>"

definition ex_store :: "attendance list" where
  "ex_store =
     snd (createManualAttendance no_rejects
       (snd (syncAttendance no_rejects
          (snd (submitAttendance (ex_world (Returns True)) [] ''u1'' (ex_body (JBool True))))
          ''u1'' (Some [ex_claim ''q77'' (Some ''c1'') 950, ex_claim ''q78'' (Some ''c1'') 960])))
       ''t1'' ex_manual)"

text \<open>A storage layer that refuses a document without a class id; batches of claims.\<close>

definition requires_class :: rejects where
  "requires_class = (\<lambda>store doc. if classId doc = None then Some ''Attendance validation failed'' else None)"

definition ex_submitted :: "attendance list" where
  "ex_submitted = snd (submitAttendance (ex_world (Returns True)) [] ''u1'' (ex_body (JBool True)))"

definition ex_batch :: "claim list" where
  "ex_batch = [ex_claim ''q77'' (Some ''c1'') 950, ex_claim ''q78'' (Some ''c1'') 960,
               ex_claim ''q79'' (Some ''c1'') 970]"


text \<open>
  An enrolment, queries without filters, a term of ten sessions of which student \<open>u1\<close>
  attended seven, and a collection whose only record has a status outside the three kinds.
\<close>

definition ex_enrollments :: "classEnrollment list" where
  "ex_enrollments = [\<lparr> enr_studentId = ''u1'', enr_classId = ''c1'' \<rparr>]"

definition ex_all :: classQuery where
  "ex_all = \<lparr> q_startDate = None, q_endDate = None, q_status = None \<rparr>"






section \<open>Lemmas about the handlers\<close>

subsection \<open>A successful submission\<close>

lemma submit_201:
  assumes "submitAttendance w store sid b = (resp, store')" and "status_code resp = 201"
  shows "\<exists>sess cls coords q.
           b_sessionId b = Some sess \<and> b_classId b = Some cls \<and> b_studentCoordinates b = Some coords
           \<and> find (session_matches w sess cls) (qrSessions w) = Some q
           \<and> find (has_pair sid (Some (qr_id q))) store = None
           \<and> resp = Response 201 ''Attendance marked successfully!'' (Some (submit_record w sid cls coords q))
           \<and> store' = store @ [submit_record w sid cls coords q]"
  using assms
  by (auto simp: submitAttendance_def save_def submit_catch_def
           split: if_splits option.splits outcome.splits bool.splits)


subsection \<open>The reconciliation loop\<close>

lemma find_pair_None: "find (has_pair sid k) store = None \<longleftrightarrow> k \<notin> known_sessions store sid"
  by (auto simp: find_None_iff known_sessions_def)

lemma pre_existing_known: "pre_existing store sid c \<longleftrightarrow> c_sessionId c \<in> known_sessions store sid"
  by (simp add: pre_existing_def known_sessions_def)

lemma known_sessions_snoc:
  "known_sessions (store @ [sync_record sid c]) sid = insert (c_sessionId c) (known_sessions store sid)"
  by (auto simp: known_sessions_def has_pair_def sync_record_def new_Attendance_def)

lemma sync_loop_store:
  "sync_loop rej sid cs store results = (out, store') \<Longrightarrow>
     \<exists>kept. store' = store @ map (sync_record sid) kept \<and> set kept \<subseteq> set cs
        \<and> (\<forall>c \<in> set kept. c_sessionId c \<notin> known_sessions store sid)
        \<and> distinct (map c_sessionId kept)"
proof (induction cs arbitrary: store results)
  case Nil
  then show ?case by simp
next
  case (Cons c cs)
  show ?case
  proof (cases "find (has_pair sid (c_sessionId c)) store")
    case (Some existing)
    with Cons.prems have "sync_loop rej sid cs store (results @ [skipped c]) = (out, store')"
      by simp
    from Cons.IH [OF this] show ?thesis by auto
  next
    case None
    then have fresh: "c_sessionId c \<notin> known_sessions store sid" by (simp add: find_pair_None)
    show ?thesis
    proof (cases "rej store (sync_record sid c)")
      case (Some m)
      with None Cons.prems have "store' = store" by (simp add: save_def)
      then show ?thesis by (intro exI [of _ "[]"]) simp
    next
      case rejNone: None
      with None Cons.prems
      have "sync_loop rej sid cs (store @ [sync_record sid c]) (results @ [success c]) = (out, store')"
        by (simp add: save_def)
      from Cons.IH [OF this] obtain kept where
        k: "store' = (store @ [sync_record sid c]) @ map (sync_record sid) kept"
           "set kept \<subseteq> set cs"
           "\<forall>c' \<in> set kept. c_sessionId c' \<notin> known_sessions (store @ [sync_record sid c]) sid"
           "distinct (map c_sessionId kept)"
        by blast
      show ?thesis
        using k fresh by (intro exI [of _ "c # kept"]) (auto simp: known_sessions_snoc)
    qed
  qed
qed

lemma sync_loop_success:
  "sync_loop rej sid cs store results = (Inr out, store') \<Longrightarrow>
     out = results @ batch_outcomes (known_sessions store sid) cs \<and>
     store' = store @ map (sync_record sid) (batch_kept (known_sessions store sid) cs)"
proof (induction cs arbitrary: store results)
  case Nil
  then show ?case by simp
next
  case (Cons c cs)
  show ?case
  proof (cases "find (has_pair sid (c_sessionId c)) store")
    case (Some existing)
    then have known: "c_sessionId c \<in> known_sessions store sid"
      using find_pair_None [of sid "c_sessionId c" store] by simp
    then have same: "insert (c_sessionId c) (known_sessions store sid) = known_sessions store sid"
      by auto
    from Some Cons.prems have "sync_loop rej sid cs store (results @ [skipped c]) = (Inr out, store')"
      by simp
    from Cons.IH [OF this] show ?thesis using known same by simp
  next
    case None
    then have fresh: "c_sessionId c \<notin> known_sessions store sid" by (simp add: find_pair_None)
    show ?thesis
    proof (cases "rej store (sync_record sid c)")
      case (Some m)
      with None Cons.prems show ?thesis by (simp add: save_def)
    next
      case rejNone: None
      with None Cons.prems
      have "sync_loop rej sid cs (store @ [sync_record sid c]) (results @ [success c]) = (Inr out, store')"
        by (simp add: save_def)
      from Cons.IH [OF this] show ?thesis using fresh by (simp add: known_sessions_snoc)
    qed
  qed
qed



lemma batch_outcomes_length: "length (batch_outcomes K cs) = length cs"
  by (induction cs arbitrary: K) simp_all

lemma batch_outcomes_sessions: "map res_sessionId (batch_outcomes K cs) = map c_sessionId cs"
  by (induction cs arbitrary: K) (simp_all add: skipped_def success_def)

lemma batch_outcomes_nth:
  "i < length cs \<Longrightarrow>
     batch_outcomes K cs ! i =
       (if c_sessionId (cs ! i) \<in> K \<union> c_sessionId ` set (take i cs)
        then skipped (cs ! i) else success (cs ! i))"
proof (induction cs arbitrary: K i)
  case Nil
  then show ?case by simp
next
  case (Cons c cs)
  show ?case
  proof (cases i)
    case 0
    then show ?thesis by simp
  next
    case (Suc j)
    with Cons.prems have "j < length cs" by simp
    from Cons.IH [OF this, of "insert (c_sessionId c) K"] show ?thesis using Suc by simp
  qed
qed

lemma batch_outcomes_distinct:
  "distinct (map c_sessionId cs) \<Longrightarrow> \<forall>c \<in> set cs. c_sessionId c \<notin> A \<Longrightarrow>
     batch_outcomes (K \<union> A) cs =
       map (\<lambda>c. if c_sessionId c \<in> K then skipped c else success c) cs"
proof (induction cs arbitrary: A)
  case Nil
  then show ?case by simp
next
  case (Cons c cs)
  have "insert (c_sessionId c) (K \<union> A) = K \<union> insert (c_sessionId c) A" by auto
  moreover have "\<forall>c' \<in> set cs. c_sessionId c' \<notin> insert (c_sessionId c) A"
    using Cons.prems by (auto simp: image_iff)
  moreover have "distinct (map c_sessionId cs)" using Cons.prems by simp
  ultimately have "batch_outcomes (insert (c_sessionId c) (K \<union> A)) cs =
      map (\<lambda>c. if c_sessionId c \<in> K then skipped c else success c) cs"
    using Cons.IH [of "insert (c_sessionId c) A"] by simp
  then show ?case using Cons.prems by simp
qed

subsection \<open>Rounding to a double\<close>









subsection \<open>One record per pair is preserved\<close>




lemma sync_store:
  "snd (syncAttendance rej s sid attendances) = s \<or>
   (\<exists>cs. attendances = Some cs \<and> snd (syncAttendance rej s sid attendances) = snd (sync_loop rej sid cs s []))"
  by (cases "sync_loop rej sid (the attendances) s []")
     (auto simp: syncAttendance_def split: option.splits sum.splits)







subsection \<open>Responses of the reconciliation handler\<close>

lemma sync_200:
  assumes "syncAttendance rej store sid (Some cs) = (resp, store')" and "status_code resp = 200"
  shows "cs \<noteq> [] \<and> (\<exists>results. sync_loop rej sid cs store [] = (Inr results, store')
            \<and> resp = Response 200 ''Sync completed.'' (Some results))"
  using assms
  by (cases "sync_loop rej sid cs store []")
     (auto simp: syncAttendance_def split: if_splits sum.splits)

lemma skipped_count:
  "length (filter (\<lambda>r. res_status r = ''skipped'') (map (\<lambda>c. if P c then skipped c else success c) cs))
     = length (filter P cs)"
  by (induction cs) (simp_all add: skipped_def success_def)

lemma success_count:
  "length (filter (\<lambda>r. res_status r = ''success'') (map (\<lambda>c. if P c then skipped c else success c) cs))
     = length cs - length (filter P cs)"
proof -
  have "length (filter (\<lambda>r. res_status r = ''success'') (map (\<lambda>c. if P c then skipped c else success c) cs))
     = length (filter (\<lambda>c. \<not> P c) cs)"
    by (induction cs) (simp_all add: skipped_def success_def)
  moreover have "length (filter P cs) + length (filter (\<lambda>c. \<not> P c) cs) = length cs"
    by (rule sum_length_filter_compl)
  ultimately show ?thesis by simp
qed


lemma sync_store_new:
  assumes "syncAttendance rej store sid attendances = (resp, store')"
  shows "\<exists>kept. store' = store @ map (sync_record sid) kept
           \<and> set kept \<subseteq> set (case attendances of None \<Rightarrow> [] | Some cs \<Rightarrow> cs)
           \<and> (\<forall>c \<in> set kept. \<not> pre_existing store sid c)
           \<and> distinct (map c_sessionId kept)"
proof -
  from sync_store [of rej store sid attendances] show ?thesis
  proof
    assume "snd (syncAttendance rej store sid attendances) = store"
    with assms have "store' = store" by simp
    then show ?thesis by (intro exI [of _ "[]"]) simp
  next
    assume "\<exists>cs. attendances = Some cs
      \<and> snd (syncAttendance rej store sid attendances) = snd (sync_loop rej sid cs store [])"
    then obtain cs where a: "attendances = Some cs"
      and e: "snd (syncAttendance rej store sid attendances) = snd (sync_loop rej sid cs store [])"
      by blast
    from e assms have "sync_loop rej sid cs store [] = (fst (sync_loop rej sid cs store []), store')"
      by (simp add: prod_eq_iff)
    from sync_loop_store [OF this] show ?thesis
      using a by (simp add: pre_existing_known)
  qed
qed

lemma sessionId_sync_record: "map sessionId (map (sync_record sid) cs) = map c_sessionId cs"
  by (simp add: sync_record_def new_Attendance_def)

subsection \<open>The example runs\<close>

lemmas ex_eval =
  submitAttendance_def syncAttendance_def createManualAttendance_def save_def no_rejects_def
  requires_class_def ex_world_def ex_body_def ex_student_def ex_session_def ex_claim_def
  ex_manual_def ex_submitted_def ex_batch_def falsy_def session_matches_def has_pair_def
  submit_record_def sync_record_def manual_record_def new_Attendance_def skipped_def success_def
  pre_existing_def

lemma ex_submitted_value:
  "ex_submitted = [submit_record (ex_world (Returns True)) ''u1'' ''c1'' (JNum 23, JNum 72) ex_session]"
  by (simp add: ex_eval)

lemma ex_batch_run:
  "syncAttendance no_rejects ex_submitted ''u1'' (Some ex_batch) =
     (Response 200 ''Sync completed.''
        (Some [skipped (ex_claim ''q77'' (Some ''c1'') 950), success (ex_claim ''q78'' (Some ''c1'') 960),
               success (ex_claim ''q79'' (Some ''c1'') 970)]),
      ex_submitted @ [sync_record ''u1'' (ex_claim ''q78'' (Some ''c1'') 960),
                      sync_record ''u1'' (ex_claim ''q79'' (Some ''c1'') 970)])"
  by (simp add: ex_eval)

lemma ex_submit_run:
  "submitAttendance (ex_world (Returns True)) [] ''u1'' (ex_body (JBool True)) =
     (Response 201 ''Attendance marked successfully!''
        (Some (submit_record (ex_world (Returns True)) ''u1'' ''c1'' (JNum 23, JNum 72) ex_session)),
      ex_submitted)"
  by (simp add: ex_eval)

subsection \<open>Counting and percentages\<close>

lemma present_count:
  "length (filter (\<lambda>r. t_status r = ''present'')
      (map (transform us) (sort_newest_first (filter Q store))))
   = length (filter (\<lambda>r. Q r \<and> status r = ''present'') store)"
proof -
  have "length (filter (\<lambda>r. t_status r = ''present'')
      (map (transform us) (sort_newest_first (filter Q store))))
    = length (filter (\<lambda>r. status r = ''present'') (sort_newest_first (filter Q store)))"
    by (simp add: filter_map o_def transform_def)
  also have "\<dots> = length (filter (\<lambda>r. status r = ''present'') (sort_key timestamp (filter Q store)))"
    by (simp add: sort_newest_first_def rev_filter [symmetric])
  also have "\<dots> = length (filter (\<lambda>r. status r = ''present'') (filter Q store))"
    by (simp add: filter_sort)
  also have "\<dots> = length (filter (\<lambda>r. Q r \<and> status r = ''present'') store)"
    by simp
  finally show ?thesis .
qed










text \<open>
  The double nearest to \<open>23 / 160\<close>, times 100, lies just below 14.375, so the summary of
  23 attended sessions out of 160 reports 14.37: at an exact tie the rounding can go down.
\<close>

lemma summary_tie_example:
  "percentage (make_summary 160 23) = 1437 / 100
   \<and> rounded_2dp (100 * 23 / 160) (percentage (make_summary 160 23))"
proof -
  have "toFixed2 (js_mul (js_div 23 160) 100) = 1437 / 100"
    unfolding js_div_def js_mul_def toFixed2_def to_double_def Let_def binade_def round_ties_even_def
    by (simp add: bit_length.simps)
  then have p: "percentage (make_summary 160 23) = 1437 / 100"
    by (simp add: make_summary_def calc_percentage_def)
  show ?thesis unfolding p by (simp add: rounded_2dp_def)
qed

section \<open>Properties of the handlers\<close>

subsection \<open>Liveness is required\<close>

text \<open>
  Claim C7. When \<open>livenessPassed\<close> is not the boolean \<open>true\<close> (false, absent, or any
  other value such as the string \<open>"true"\<close>), \<open>submitAttendance\<close> answers with status 400
  whatever the other fields, the verifier, the sessions and the collection are; it
  returns no record and leaves the collection as it was.
\<close>

theorem submit_liveness_required:
  "b_livenessPassed b \<noteq> JBool True \<Longrightarrow>
     status_code (fst (submitAttendance w store sid b)) = 400 \<and>
     payload (fst (submitAttendance w store sid b)) = None \<and>
     snd (submitAttendance w store sid b) = store"
  by (simp add: submitAttendance_def)

theorem submit_liveness_required_witness:
  "b_livenessPassed (ex_body (JStr ''true'')) \<noteq> JBool True \<and>
   status_code (fst (submitAttendance (ex_world (Returns True)) [] ''u1'' (ex_body (JStr ''true'')))) = 400 \<and>
   payload (fst (submitAttendance (ex_world (Returns True)) [] ''u1'' (ex_body (JStr ''true'')))) = None \<and>
   snd (submitAttendance (ex_world (Returns True)) [] ''u1'' (ex_body (JStr ''true''))) = []"
proof -
  have h: "b_livenessPassed (ex_body (JStr ''true'')) \<noteq> JBool True"
    by (simp add: ex_body_def)
  from submit_liveness_required [OF h] h show ?thesis by blast
qed

subsection \<open>The identity verifier\<close>

text \<open>
  Against claim C8 as stated: an error thrown by the face comparison whose message
  contains \<open>Face could not be verified\<close> is answered with status 401, the status of a
  non-match.
\<close>

theorem verifier_error_reported_as_mismatch:
  "submitAttendance (ex_world (Throws ''Face could not be verified. Please try again.'')) []
      ''u1'' (ex_body (JBool True)) =
     (Response 401 ''Face could not be verified. Please try again.'' None, [])
   \<and> status_code (fst (submitAttendance (ex_world (Returns False)) [] ''u1'' (ex_body (JBool True)))) = 401"
  by (simp add: submitAttendance_def ex_world_def ex_body_def ex_student_def falsy_def submit_catch_def)

text \<open>
  Claim C8, amended. Once the request has passed validation, the student has a registered
  face and the image is within the size limit, the handler calls the verifier. A
  non-match is answered with status 401. An error thrown by the verifier is answered with
  status 500, unless its message contains \<open>Face could not be verified\<close>: then it is
  answered with status 401 and that message. In all three cases no record is created.
\<close>

theorem submit_verifier_failures:
  assumes "b_sessionId b = Some sess" and "sess \<noteq> []"
    and "b_classId b = Some cls" and "cls \<noteq> []"
    and "b_studentCoordinates b = Some coords"
    and "b_faceImage b = Some img" and "img \<noteq> []"
    and "b_livenessPassed b = JBool True"
    and "find (\<lambda>u. user_id u = sid) (users w) = Some student"
    and "faceImageS3Key student = Some key" and "key \<noteq> []"
    and "decodedSize w img \<le> 5 * 1024 * 1024"
  shows "(compareFaces w key img = Returns False \<longrightarrow>
            submitAttendance w store sid b =
              (Response 401 ''Face recognition failed. Identity could not be verified.'' None, store))
       \<and> (\<forall>m. compareFaces w key img = Throws m \<longrightarrow>
            submitAttendance w store sid b =
              (if str_includes m ''Face could not be verified'' then Response 401 m None
               else Response 500 (if m = [] then ''An unexpected server error occurred.'' else m) None,
               store))"
  using assms by (simp add: submitAttendance_def falsy_def submit_catch_def)

theorem submit_verifier_failures_witness:
  "submitAttendance (ex_world (Returns False)) [] ''u1'' (ex_body (JBool True)) =
     (Response 401 ''Face recognition failed. Identity could not be verified.'' None, [])
   \<and> submitAttendance (ex_world (Throws ''socket hang up'')) [] ''u1'' (ex_body (JBool True)) =
     (Response 500 ''socket hang up'' None, [])"
proof -
  have a: "submitAttendance (ex_world (Returns False)) [] ''u1'' (ex_body (JBool True)) =
     (Response 401 ''Face recognition failed. Identity could not be verified.'' None, [])"
    using submit_verifier_failures [of "ex_body (JBool True)" "''tok-1''" "''c1''" "(JNum 23, JNum 72)"
        "''aGVsbG8=''" "''u1''" "ex_world (Returns False)" ex_student "''faces/u1.jpg''" "[]"]
    by (simp add: ex_body_def ex_world_def ex_student_def)
  have b: "submitAttendance (ex_world (Throws ''socket hang up'')) [] ''u1'' (ex_body (JBool True)) =
     (Response 500 ''socket hang up'' None, [])"
    using submit_verifier_failures [of "ex_body (JBool True)" "''tok-1''" "''c1''" "(JNum 23, JNum 72)"
        "''aGVsbG8=''" "''u1''" "ex_world (Throws ''socket hang up'')" ex_student "''faces/u1.jpg''" "[]"]
    by (simp add: ex_body_def ex_world_def ex_student_def)
  from a b show ?thesis by (rule conjI)
qed

subsection \<open>At most one record per student and session\<close>



subsection \<open>Outcomes of a reconciled batch\<close>

text \<open>
  Against claim C2 as stated: a batch that carries the same session id twice, with no
  record beforehand, gets one \<open>success\<close> and one \<open>skipped\<close>; and a batch whose save is
  refused gets no outcomes.
\<close>

theorem sync_duplicate_in_batch:
  "syncAttendance no_rejects [] ''u1''
      (Some [ex_claim ''q78'' (Some ''c1'') 960, ex_claim ''q78'' (Some ''c1'') 960]) =
     (Response 200 ''Sync completed.''
        (Some [success (ex_claim ''q78'' (Some ''c1'') 960), skipped (ex_claim ''q78'' (Some ''c1'') 960)]),
      [sync_record ''u1'' (ex_claim ''q78'' (Some ''c1'') 960)])
   \<and> length (filter (pre_existing [] ''u1'')
        [ex_claim ''q78'' (Some ''c1'') 960, ex_claim ''q78'' (Some ''c1'') 960]) = 0
   \<and> syncAttendance requires_class [] ''u1'' (Some [ex_claim ''q78'' None 960]) =
     (Response 500 ''Attendance validation failed'' None, [])"
  by (simp add: ex_eval)

text \<open>
  Claim C2, amended. When \<open>syncAttendance\<close> answers a list of \<open>N\<close> claims with status 200,
  the response has exactly \<open>N\<close> outcomes, in the order of the claims and each with its
  claim's session id. A claim is \<open>skipped\<close> when a record of the student with its session
  id exists before the call or an earlier claim of the batch carries the same session id,
  and \<open>success\<close> otherwise. So when the session ids of the batch are pairwise distinct
  and \<open>M\<close> claims have a record beforehand, \<open>M\<close> outcomes are \<open>skipped\<close> and \<open>N - M\<close> are
  \<open>success\<close>.
\<close>

theorem sync_outcomes:
  assumes "syncAttendance rej store sid (Some cs) = (resp, store')" and "status_code resp = 200"
  shows "\<exists>results. payload resp = Some results
     \<and> length results = length cs
     \<and> map res_sessionId results = map c_sessionId cs
     \<and> (\<forall>i<length cs. results ! i =
           (if pre_existing store sid (cs ! i) \<or> c_sessionId (cs ! i) \<in> c_sessionId ` set (take i cs)
            then skipped (cs ! i) else success (cs ! i)))
     \<and> (distinct (map c_sessionId cs) \<longrightarrow>
           length (filter (\<lambda>r. res_status r = ''skipped'') results) = length (filter (pre_existing store sid) cs)
           \<and> length (filter (\<lambda>r. res_status r = ''success'') results)
               = length cs - length (filter (pre_existing store sid) cs))"
proof -
  define K where "K = known_sessions store sid"
  from sync_200 [OF assms] obtain results where
    loop: "sync_loop rej sid cs store [] = (Inr results, store')"
    and resp: "resp = Response 200 ''Sync completed.'' (Some results)"
    by blast
  from sync_loop_success [OF loop] have res: "results = batch_outcomes K cs"
    by (simp add: K_def)
  have pre: "\<And>c. pre_existing store sid c \<longleftrightarrow> c_sessionId c \<in> K"
    by (simp add: pre_existing_known K_def)
  have nth: "\<forall>i<length cs. results ! i =
           (if pre_existing store sid (cs ! i) \<or> c_sessionId (cs ! i) \<in> c_sessionId ` set (take i cs)
            then skipped (cs ! i) else success (cs ! i))"
    by (simp add: res batch_outcomes_nth pre)
  have dist: "distinct (map c_sessionId cs) \<longrightarrow>
           length (filter (\<lambda>r. res_status r = ''skipped'') results) = length (filter (pre_existing store sid) cs)
           \<and> length (filter (\<lambda>r. res_status r = ''success'') results)
               = length cs - length (filter (pre_existing store sid) cs)"
  proof
    assume d: "distinct (map c_sessionId cs)"
    from batch_outcomes_distinct [OF d, of "{}" K]
    have "results = map (\<lambda>c. if pre_existing store sid c then skipped c else success c) cs"
      by (simp add: res pre)
    then show "length (filter (\<lambda>r. res_status r = ''skipped'') results) = length (filter (pre_existing store sid) cs)
           \<and> length (filter (\<lambda>r. res_status r = ''success'') results)
               = length cs - length (filter (pre_existing store sid) cs)"
      by (simp only: skipped_count success_count)
  qed
  show ?thesis
    using nth dist
    by (intro exI [of _ results]) (simp add: resp res batch_outcomes_length batch_outcomes_sessions)
qed

theorem sync_outcomes_witness:
  "status_code (fst (syncAttendance no_rejects ex_submitted ''u1'' (Some ex_batch))) = 200
   \<and> distinct (map c_sessionId ex_batch)
   \<and> length (filter (pre_existing ex_submitted ''u1'') ex_batch) = 1
   \<and> (\<exists>results. payload (fst (syncAttendance no_rejects ex_submitted ''u1'' (Some ex_batch))) = Some results
         \<and> length results = 3
         \<and> results ! 0 = skipped (ex_batch ! 0)
         \<and> length (filter (\<lambda>r. res_status r = ''skipped'') results) = 1
         \<and> length (filter (\<lambda>r. res_status r = ''success'') results) = 2)"
proof -
  have d: "distinct (map c_sessionId ex_batch)" by (simp add: ex_batch_def ex_claim_def)
  have m: "length (filter (pre_existing ex_submitted ''u1'') ex_batch) = 1"
    by (simp add: ex_eval)
  have n: "length ex_batch = 3" by (simp add: ex_batch_def)
  have p0: "pre_existing ex_submitted ''u1'' (ex_batch ! 0)" by (simp add: ex_eval)
  have s: "status_code (fst (syncAttendance no_rejects ex_submitted ''u1'' (Some ex_batch))) = 200"
    by (simp add: ex_batch_run)
  from sync_outcomes [OF surjective_pairing s] obtain results where
    r: "payload (fst (syncAttendance no_rejects ex_submitted ''u1'' (Some ex_batch))) = Some results"
       "length results = length ex_batch"
       "\<forall>i<length ex_batch. results ! i =
           (if pre_existing ex_submitted ''u1'' (ex_batch ! i)
               \<or> c_sessionId (ex_batch ! i) \<in> c_sessionId ` set (take i ex_batch)
            then skipped (ex_batch ! i) else success (ex_batch ! i))"
       "distinct (map c_sessionId ex_batch) \<longrightarrow>
           length (filter (\<lambda>r. res_status r = ''skipped'') results)
             = length (filter (pre_existing ex_submitted ''u1'') ex_batch)
           \<and> length (filter (\<lambda>r. res_status r = ''success'') results)
               = length ex_batch - length (filter (pre_existing ex_submitted ''u1'') ex_batch)"
    by blast
  from r(3) n p0 have r0: "results ! 0 = skipped (ex_batch ! 0)" by simp
  from r(4) d m n have c: "length (filter (\<lambda>r. res_status r = ''skipped'') results) = 1"
    "length (filter (\<lambda>r. res_status r = ''success'') results) = 2" by simp_all
  from r(2) n have l: "length results = 3" by simp
  show ?thesis
    by (intro conjI exI [of _ results]) (fact s d m r(1) l r0 c)+
qed

subsection \<open>Failures of a reconciled batch\<close>




subsection \<open>Fields of the persisted records\<close>



subsection \<open>Which session id a record carries\<close>

text \<open>
  Claim C9. A submission answered with status 201 has found a QR session \<open>q\<close> matching the
  submitted session and class ids, has found no record of the student with session id
  \<open>_id\<close> of \<open>q\<close>, and has persisted a record whose session id is that \<open>_id\<close>, not the
  submitted string (in the example the token \<open>tok-1\<close> is stored as \<open>q77\<close>). A
  reconciliation persists records that carry the session ids of their claims as they
  are; it persists a claim only if no record of the student had that very value
  beforehand, and never two claims with the same value.
\<close>

theorem session_key_of_records:
  "(\<forall>resp store'. submitAttendance w store sid b = (resp, store') \<and> status_code resp = 201 \<longrightarrow>
      (\<exists>sess cls q r. b_sessionId b = Some sess \<and> b_classId b = Some cls
          \<and> find (session_matches w sess cls) (qrSessions w) = Some q
          \<and> find (has_pair sid (Some (qr_id q))) store = None
          \<and> payload resp = Some r \<and> store' = store @ [r]
          \<and> sessionId r = Some (qr_id q)))
   \<and> (\<forall>resp store'. syncAttendance rej store sid attendances = (resp, store') \<longrightarrow>
      (\<exists>kept. store' = store @ map (sync_record sid) kept
          \<and> set kept \<subseteq> set (case attendances of None \<Rightarrow> [] | Some cs \<Rightarrow> cs)
          \<and> (\<forall>c \<in> set kept. sessionId (sync_record sid c) = c_sessionId c
                \<and> find (has_pair sid (c_sessionId c)) store = None)
          \<and> distinct (map c_sessionId kept)))"
proof (intro conjI allI impI)
  fix resp store'
  assume "submitAttendance w store sid b = (resp, store') \<and> status_code resp = 201"
  then have "submitAttendance w store sid b = (resp, store')" and "status_code resp = 201"
    by simp_all
  from submit_201 [OF this] obtain sess cls coords q where
    s: "b_sessionId b = Some sess" "b_classId b = Some cls"
       "find (session_matches w sess cls) (qrSessions w) = Some q"
       "find (has_pair sid (Some (qr_id q))) store = None"
       "resp = Response 201 ''Attendance marked successfully!'' (Some (submit_record w sid cls coords q))"
       "store' = store @ [submit_record w sid cls coords q]"
    by blast
  have "sessionId (submit_record w sid cls coords q) = Some (qr_id q)"
    by (simp add: submit_record_def new_Attendance_def)
  with s show "\<exists>sess cls q r. b_sessionId b = Some sess \<and> b_classId b = Some cls
          \<and> find (session_matches w sess cls) (qrSessions w) = Some q
          \<and> find (has_pair sid (Some (qr_id q))) store = None
          \<and> payload resp = Some r \<and> store' = store @ [r]
          \<and> sessionId r = Some (qr_id q)"
    by (intro exI [of _ sess] exI [of _ cls] exI [of _ q]
          exI [of _ "submit_record w sid cls coords q"]) simp
next
  fix resp store'
  assume "syncAttendance rej store sid attendances = (resp, store')"
  from sync_store_new [OF this] obtain kept where
    k: "store' = store @ map (sync_record sid) kept"
       "set kept \<subseteq> set (case attendances of None \<Rightarrow> [] | Some cs \<Rightarrow> cs)"
       "\<forall>c \<in> set kept. \<not> pre_existing store sid c"
       "distinct (map c_sessionId kept)"
    by blast
  have "\<forall>c \<in> set kept. sessionId (sync_record sid c) = c_sessionId c
                \<and> find (has_pair sid (c_sessionId c)) store = None"
    using k(3) by (simp add: sync_record_def new_Attendance_def find_pair_None pre_existing_known)
  with k show "\<exists>kept. store' = store @ map (sync_record sid) kept
          \<and> set kept \<subseteq> set (case attendances of None \<Rightarrow> [] | Some cs \<Rightarrow> cs)
          \<and> (\<forall>c \<in> set kept. sessionId (sync_record sid c) = c_sessionId c
                \<and> find (has_pair sid (c_sessionId c)) store = None)
          \<and> distinct (map c_sessionId kept)"
    by blast
qed

theorem session_key_of_records_witness:
  "status_code (fst (submitAttendance (ex_world (Returns True)) [] ''u1'' (ex_body (JBool True)))) = 201
   \<and> b_sessionId (ex_body (JBool True)) = Some ''tok-1''
   \<and> (\<exists>q r. find (session_matches (ex_world (Returns True)) ''tok-1'' ''c1'')
                 (qrSessions (ex_world (Returns True))) = Some q
         \<and> payload (fst (submitAttendance (ex_world (Returns True)) [] ''u1'' (ex_body (JBool True)))) = Some r
         \<and> sessionId r = Some (qr_id q) \<and> sessionId r = Some ''q77'')
   \<and> (\<exists>kept. snd (syncAttendance no_rejects ex_submitted ''u1'' (Some ex_batch))
                = ex_submitted @ map (sync_record ''u1'') kept
         \<and> map c_sessionId kept = [Some ''q78'', Some ''q79''])"
proof -
  note t = session_key_of_records [of "ex_world (Returns True)" "[]" "''u1''" "ex_body (JBool True)"
      no_rejects "Some ex_batch"]
  note t' = session_key_of_records [of "ex_world (Returns True)" ex_submitted "''u1''" "ex_body (JBool True)"
      no_rejects "Some ex_batch"]
  have s: "status_code (fst (submitAttendance (ex_world (Returns True)) [] ''u1'' (ex_body (JBool True)))) = 201"
    by (simp add: ex_submit_run)
  have tok: "b_sessionId (ex_body (JBool True)) = Some ''tok-1''"
    and cls: "b_classId (ex_body (JBool True)) = Some ''c1''"
    by (simp_all add: ex_body_def)
  from t [THEN conjunct1, rule_format, OF conjI [OF surjective_pairing s]] obtain sess cls' q r where
    r: "b_sessionId (ex_body (JBool True)) = Some sess" "b_classId (ex_body (JBool True)) = Some cls'"
       "find (session_matches (ex_world (Returns True)) sess cls') (qrSessions (ex_world (Returns True))) = Some q"
       "payload (fst (submitAttendance (ex_world (Returns True)) [] ''u1'' (ex_body (JBool True)))) = Some r"
       "sessionId r = Some (qr_id q)"
    by (elim exE conjE)
  from r(1) r(2) tok cls have e: "sess = ''tok-1''" "cls' = ''c1''" by simp_all
  from r(4) have "r = submit_record (ex_world (Returns True)) ''u1'' ''c1'' (JNum 23, JNum 72) ex_session"
    by (simp add: ex_submit_run)
  then have q77: "sessionId r = Some ''q77''"
    by (simp add: submit_record_def new_Attendance_def ex_session_def)
  have a: "\<exists>q r. find (session_matches (ex_world (Returns True)) ''tok-1'' ''c1'')
                 (qrSessions (ex_world (Returns True))) = Some q
         \<and> payload (fst (submitAttendance (ex_world (Returns True)) [] ''u1'' (ex_body (JBool True)))) = Some r
         \<and> sessionId r = Some (qr_id q) \<and> sessionId r = Some ''q77''"
  proof -
    from r(3) have f: "find (session_matches (ex_world (Returns True)) ''tok-1'' ''c1'')
                 (qrSessions (ex_world (Returns True))) = Some q"
      unfolding e .
    show ?thesis by (intro exI [of _ q] exI [of _ r] conjI) (fact f r(4) r(5) q77)+
  qed
  from t' [THEN conjunct2, rule_format, OF surjective_pairing] obtain kept where
    k: "snd (syncAttendance no_rejects ex_submitted ''u1'' (Some ex_batch))
          = ex_submitted @ map (sync_record ''u1'') kept"
    by (elim exE conjE)
  then have "map (sync_record ''u1'') kept = [sync_record ''u1'' (ex_claim ''q78'' (Some ''c1'') 960),
                      sync_record ''u1'' (ex_claim ''q79'' (Some ''c1'') 970)]"
    by (simp add: ex_batch_run)
  then have "map sessionId (map (sync_record ''u1'') kept) = [Some ''q78'', Some ''q79'']"
    by (simp add: sync_record_def new_Attendance_def ex_claim_def)
  then have ks: "map c_sessionId kept = [Some ''q78'', Some ''q79'']"
    by (simp only: sessionId_sync_record)
  have b: "\<exists>kept. snd (syncAttendance no_rejects ex_submitted ''u1'' (Some ex_batch))
                = ex_submitted @ map (sync_record ''u1'') kept
         \<and> map c_sessionId kept = [Some ''q78'', Some ''q79'']"
    by (intro exI [of _ kept] conjI) (fact k ks)+
  from s tok a b show ?thesis by (intro conjI)
qed

subsection \<open>The percentage of a summary\<close>



subsection \<open>The rows of the full report\<close>



subsection \<open>The statistics of a class\<close>

text \<open>
  Claim C10. In the response of \<open>getAttendanceByClass\<close>, \<open>present\<close> is the number of
  returned records with status \<open>present\<close>, \<open>totalEnrolled\<close> the number of enrolments of the
  class, and \<open>absent = totalEnrolled - present\<close>, so \<open>present + absent = totalEnrolled\<close>.
  The absent figure depends on the collection only through the matching records with
  status \<open>present\<close>: records with status \<open>absent\<close> or \<open>late\<close> do not enter it. It is negative
  when the class has more present records than enrolled students: one enrolled student
  with present records in two sessions gives \<open>absent = -1\<close>.
\<close>

theorem class_stats:
  "present (snd (getAttendanceByClass us enrollments store cid q))
     = length (filter (\<lambda>r. t_status r = ''present'') (fst (getAttendanceByClass us enrollments store cid q)))
   \<and> totalEnrolled (snd (getAttendanceByClass us enrollments store cid q))
     = length (filter (\<lambda>e. enr_classId e = cid) enrollments)
   \<and> absent (snd (getAttendanceByClass us enrollments store cid q))
     = int (totalEnrolled (snd (getAttendanceByClass us enrollments store cid q)))
       - int (present (snd (getAttendanceByClass us enrollments store cid q)))
   \<and> int (present (snd (getAttendanceByClass us enrollments store cid q)))
       + absent (snd (getAttendanceByClass us enrollments store cid q))
     = int (totalEnrolled (snd (getAttendanceByClass us enrollments store cid q)))
   \<and> absent (snd (getAttendanceByClass us enrollments store cid q))
     = int (length (filter (\<lambda>e. enr_classId e = cid) enrollments))
       - int (length (filter (\<lambda>r. class_query_matches cid q r \<and> status r = ''present'') store))
   \<and> absent (snd (getAttendanceByClass [ex_student] ex_enrollments ex_store ''c1'' ex_all)) = - 1"
proof -
  have g: "absent (snd (getAttendanceByClass us enrollments store cid q))
     = int (length (filter (\<lambda>e. enr_classId e = cid) enrollments))
       - int (length (filter (\<lambda>r. class_query_matches cid q r \<and> status r = ''present'') store))"
    for us enrollments store cid q
    by (simp only: getAttendanceByClass_def Let_def snd_conv stats.select_convs present_count)
  have ex: "absent (snd (getAttendanceByClass [ex_student] ex_enrollments ex_store ''c1'' ex_all)) = - 1"
    unfolding g
    by (simp add: ex_eval ex_store_def ex_enrollments_def ex_all_def class_query_matches_def)
  show ?thesis
    using g [of us enrollments store cid q] ex
    by (simp add: getAttendanceByClass_def Let_def)
qed

theorem class_stats_witness:
  "absent (snd (getAttendanceByClass [ex_student] ex_enrollments ex_store ''c1'' ex_all)) = - 1
   \<and> present (snd (getAttendanceByClass [ex_student] ex_enrollments ex_store ''c1'' ex_all)) = 2
   \<and> totalEnrolled (snd (getAttendanceByClass [ex_student] ex_enrollments ex_store ''c1'' ex_all)) = 1
   \<and> map status ex_store = [''present'', ''present'', ''late'']"
proof -
  note t = class_stats [of "[ex_student]" ex_enrollments ex_store "''c1''" ex_all]
  have e: "length (filter (\<lambda>e. enr_classId e = ''c1'') ex_enrollments) = 1"
    by (simp add: ex_enrollments_def)
  have s: "map status ex_store = [''present'', ''present'', ''late'']"
    by (simp add: ex_eval ex_store_def)
  from t have a: "absent (snd (getAttendanceByClass [ex_student] ex_enrollments ex_store ''c1'' ex_all)) = - 1"
    by (elim conjE)
  from t e have n: "totalEnrolled (snd (getAttendanceByClass [ex_student] ex_enrollments ex_store ''c1'' ex_all)) = 1"
    by (elim conjE) simp
  from t a n have p: "present (snd (getAttendanceByClass [ex_student] ex_enrollments ex_store ''c1'' ex_all)) = 2"
    by (elim conjE) simp
  from a p n s show ?thesis by (intro conjI)
qed

end
